theory Spec2Isabelle
  imports Main "HOL-Library.Word"
begin

section \<open>Data model of the input pipeline\<close>

text \<open>
  The module \<open>input_pipeline.py\<close> configures record-parsing pipelines of an external
  dataset library. Tensors carry a dtype, a shape and their values. The three dtypes the
  module mentions are modelled; 64-bit and 32-bit integers are machine words, and the
  values of a float tensor are left abstract (type \<open>'f\<close>), since the code never looks
  at them.
\<close>

datatype dtype = Int64 | Int32 | Float32

datatype 'f tensor =
    TInt64 "nat list" "64 word list"
  | TInt32 "nat list" "32 word list"
  | TFloat32 "nat list" "'f list"

fun dtype_of :: "'f tensor \<Rightarrow> dtype" where
  "dtype_of (TInt64 sh ws) = Int64"
| "dtype_of (TInt32 sh ws) = Int32"
| "dtype_of (TFloat32 sh fs) = Float32"

text \<open>
  A feature declaration of the parsing schema. The module only ever declares
  \<open>FixedLenFeature\<close>; the library's variable-length declaration is part of the type so
  that "is a fixed-length feature" says something.
\<close>

datatype feature = FixedLenFeature "int list" dtype | VarLenFeature dtype

text \<open>
  Python dictionaries keep insertion order and have no duplicate keys: they are
  association lists whose keys are distinct (\<open>wf_dict\<close>). Assigning to an existing key
  replaces the value in place, assigning to a new key appends the entry; reading a
  missing key raises \<open>KeyError\<close>.
\<close>

type_synonym ('k, 'v) dict = "('k \<times> 'v) list"

definition wf_dict :: "('k, 'v) dict \<Rightarrow> bool" where
  "wf_dict d = distinct (map fst d)"

definition keys :: "('k, 'v) dict \<Rightarrow> 'k list" where
  "keys d = map fst d"

fun dict_set :: "('k, 'v) dict \<Rightarrow> 'k \<Rightarrow> 'v \<Rightarrow> ('k, 'v) dict" where
  "dict_set [] k v = [(k, v)]"
| "dict_set ((k', v') # d) k v =
     (if k' = k then (k, v) # d else (k', v') # dict_set d k v)"

text \<open>
  Errors are values: \<open>LibraryError\<close> wraps whatever the external parse operation
  raises (its error type \<open>'e\<close> is a parameter); \<open>KeyError\<close> and \<open>TypeError\<close> are
  Python's own.
\<close>

datatype 'e error = LibraryError 'e | KeyError string | TypeError

definition dict_get :: "(string, 'v) dict \<Rightarrow> string \<Rightarrow> 'e error + 'v" where
  "dict_get d k = (case map_of d k of None \<Rightarrow> Inl (KeyError k) | Some v \<Rightarrow> Inr v)"

type_synonym schema = "(string, feature) dict"
type_synonym 'f example = "(string, 'f tensor) dict"

section \<open>decode_record\<close>

text \<open>
  \<open>tf.cast\<close> from int64 to int32 keeps the low 32 bits of each value and the shape.
\<close>

definition tf_cast_int64_to_int32 :: "64 word list \<Rightarrow> 32 word list" where
  "tf_cast_int64_to_int32 ws = map ucast ws"

text \<open>
  Lines 33 and 34: \<open>if t.dtype == tf.int64: t = tf.cast(t, tf.int32)\<close>.
\<close>

fun cast_if_int64 :: "'f tensor \<Rightarrow> 'f tensor" where
  "cast_if_int64 (TInt64 sh ws) = TInt32 sh (tf_cast_int64_to_int32 ws)"
| "cast_if_int64 (TInt32 sh ws) = TInt32 sh ws"
| "cast_if_int64 (TFloat32 sh fs) = TFloat32 sh fs"

text \<open>
  The loop of lines 31 to 35 over \<open>list(example.keys())\<close>, a snapshot of the keys taken
  before the loop: read \<open>example[name]\<close>, cast, write back.
\<close>

fun cast_loop :: "string list \<Rightarrow> 'f example \<Rightarrow> 'e error + 'f example" where
  "cast_loop [] example = Inr example"
| "cast_loop (name # names) example =
     (case dict_get example name of
        Inl e \<Rightarrow> Inl e
      | Inr t \<Rightarrow> cast_loop names (dict_set example name (cast_if_int64 t)))"

text \<open>
  \<open>tf.io.parse_single_example\<close> belongs to the external library: it is the parameter
  \<open>parse\<close>, which either raises (\<open>Inl\<close>) or returns the parsed example.
\<close>

definition decode_record ::
  "('r \<Rightarrow> schema \<Rightarrow> 'e + 'f example) \<Rightarrow> 'r \<Rightarrow> schema \<Rightarrow> 'e error + 'f example" where
  "decode_record parse record name_to_features =
     (case parse record name_to_features of
        Inl e \<Rightarrow> Inl (LibraryError e)
      | Inr example \<Rightarrow> cast_loop (keys example) example)"

section \<open>file_based_input_fn_builder\<close>

text \<open>
  \<open>input_file\<close> is a path or a list of paths. \<open>isinstance(input_file, str)\<close> and
  \<open>len(input_file)\<close> are the two tests of line 53.
\<close>

datatype input_file = PathStr string | PathList "string list"

fun isinstance_str :: "input_file \<Rightarrow> bool" where
  "isinstance_str (PathStr s) = True"
| "isinstance_str (PathList ps) = False"

fun len :: "input_file \<Rightarrow> nat" where
  "len (PathStr s) = length s"
| "len (PathList ps) = length ps"

text \<open>
  \<open>tf.data.Options\<close>: the one option the module touches is
  \<open>experimental_distribute.auto_shard\<close>. A fresh \<open>tf.data.Options()\<close> leaves it unset
  (\<open>None\<close>), which is the library's default policy.
\<close>

record options =
  auto_shard :: "bool option"

definition default_options :: options where
  "default_options = \<lparr>auto_shard = None\<rparr>"

text \<open>
  The functions the module hands to \<open>Dataset.map\<close>: the lambda of line 48, which closes
  over the schema, and the three local functions \<open>_select_data_from_record\<close>.
\<close>

datatype map_fn =
    DecodeRecord schema
  | ClassifierSelect
  | SquadSelect
  | SquadV2Select

text \<open>
  The module only configures the library: a dataset object is the chain of library
  calls that built it, innermost call first applied. Every method call of the source
  wraps the dataset it is called on.
\<close>

datatype dataset =
    TFRecordDataset input_file
  | MapDataset map_fn dataset
  | WithOptions options dataset
  | Shuffle int bool dataset
  | Repeat dataset
  | Batch int bool dataset
  | Prefetch int dataset

text \<open>
  The builder returns the closure \<open>input_fn\<close>, which takes no argument.
\<close>

definition file_based_input_fn_builder :: "input_file \<Rightarrow> schema \<Rightarrow> (unit \<Rightarrow> dataset)" where
  "file_based_input_fn_builder input_file name_to_features =
     (\<lambda>_. let d = TFRecordDataset input_file;
              d = MapDataset (DecodeRecord name_to_features) d
          in if isinstance_str input_file \<or> len input_file = 1
             then (let opts = default_options;
                       opts = opts\<lparr>auto_shard := Some False\<rparr>
                   in WithOptions opts d)
             else d)"

section \<open>create_classifier_dataset\<close>

definition classifier_name_to_features :: "int \<Rightarrow> schema" where
  "classifier_name_to_features seq_length =
     [(''input_ids'', FixedLenFeature [seq_length] Int64),
      (''input_mask'', FixedLenFeature [seq_length] Int64),
      (''segment_ids'', FixedLenFeature [seq_length] Int64),
      (''label_ids'', FixedLenFeature [] Int64),
      (''is_real_example'', FixedLenFeature [] Int64)]"

text \<open>
  \<open>_select_data_from_record\<close> of lines 78 to 85. Each \<open>record[...]\<close> may raise
  \<open>KeyError\<close>; the reads happen in the order of the source.
\<close>

definition classifier_select_data_from_record ::
  "'f example \<Rightarrow> 'e error + ('f example \<times> 'f tensor)" where
  "classifier_select_data_from_record record =
     (case dict_get record ''input_ids'' of Inl e \<Rightarrow> Inl e | Inr v_ids \<Rightarrow>
      case dict_get record ''input_mask'' of Inl e \<Rightarrow> Inl e | Inr v_mask \<Rightarrow>
      case dict_get record ''segment_ids'' of Inl e \<Rightarrow> Inl e | Inr v_segs \<Rightarrow>
      let x = [(''input_word_ids'', v_ids),
               (''input_mask'', v_mask),
               (''input_type_ids'', v_segs)] in
      case dict_get record ''label_ids'' of Inl e \<Rightarrow> Inl e | Inr y \<Rightarrow>
      Inr (x, y))"

text \<open>
  \<open>FLAGS.custom_training_loop\<close> is a global boolean flag: it is the last argument of
  each constructor.
\<close>

definition create_classifier_dataset ::
  "input_file \<Rightarrow> int \<Rightarrow> int \<Rightarrow> bool \<Rightarrow> bool \<Rightarrow> bool \<Rightarrow> dataset" where
  "create_classifier_dataset file_path seq_length batch_size is_training drop_remainder
       custom_training_loop =
     (let name_to_features = classifier_name_to_features seq_length;
          input_fn = file_based_input_fn_builder file_path name_to_features;
          dataset = input_fn ();
          dataset = MapDataset ClassifierSelect dataset;
          dataset = (if is_training
                     then (let dataset = Shuffle 1024 True dataset
                           in if custom_training_loop then Repeat dataset else dataset)
                     else dataset);
          dataset = Batch batch_size drop_remainder dataset;
          dataset = Prefetch 1024 dataset
      in dataset)"

section \<open>create_squad_dataset and create_squad_dataset_v2\<close>

definition squad_name_to_features :: "int \<Rightarrow> bool \<Rightarrow> schema" where
  "squad_name_to_features seq_length is_training =
     (let name_to_features =
            [(''unique_ids'', FixedLenFeature [] Int64),
             (''input_ids'', FixedLenFeature [seq_length] Int64),
             (''input_mask'', FixedLenFeature [seq_length] Int64),
             (''segment_ids'', FixedLenFeature [seq_length] Int64)]
      in if is_training
         then (let name_to_features =
                     dict_set name_to_features ''start_positions'' (FixedLenFeature [] Int64);
                   name_to_features =
                     dict_set name_to_features ''end_positions'' (FixedLenFeature [] Int64)
               in name_to_features)
         else name_to_features)"

definition squad_v2_name_to_features :: "int \<Rightarrow> bool \<Rightarrow> schema" where
  "squad_v2_name_to_features seq_length is_training =
     (let name_to_features =
            [(''unique_ids'', FixedLenFeature [] Int64),
             (''input_ids'', FixedLenFeature [seq_length] Int64),
             (''input_mask'', FixedLenFeature [seq_length] Float32),
             (''segment_ids'', FixedLenFeature [seq_length] Int64),
             (''p_mask'', FixedLenFeature [seq_length] Float32)]
      in if is_training
         then (let name_to_features =
                     dict_set name_to_features ''start_positions'' (FixedLenFeature [] Int64);
                   name_to_features =
                     dict_set name_to_features ''end_positions'' (FixedLenFeature [] Int64);
                   name_to_features =
                     dict_set name_to_features ''is_impossible'' (FixedLenFeature [] Float32)
               in name_to_features)
         else name_to_features)"

text \<open>
  The loop \<open>for name, tensor in record.items()\<close> of the two squad variants, which
  differ only in the tuple of label names tested by \<open>name in (...)\<close>. The state of the
  loop is the pair of dictionaries \<open>x\<close> and \<open>y\<close>.
\<close>

fun select_loop ::
  "string list \<Rightarrow> 'f example \<Rightarrow> 'f example \<times> 'f example \<Rightarrow> 'f example \<times> 'f example" where
  "select_loop labels [] (x, y) = (x, y)"
| "select_loop labels ((name, tensor) # items) (x, y) =
     (if name \<in> set labels
      then select_loop labels items (x, dict_set y name tensor)
      else select_loop labels items (dict_set x name tensor, y))"

definition squad_select_data_from_record :: "'f example \<Rightarrow> 'f example \<times> 'f example" where
  "squad_select_data_from_record record =
     select_loop [''start_positions'', ''end_positions''] record ([], [])"

definition squad_v2_select_data_from_record :: "'f example \<Rightarrow> 'f example \<times> 'f example" where
  "squad_v2_select_data_from_record record =
     select_loop [''start_positions'', ''end_positions'', ''is_impossible''] record ([], [])"

definition create_squad_dataset ::
  "input_file \<Rightarrow> int \<Rightarrow> int \<Rightarrow> bool \<Rightarrow> bool \<Rightarrow> dataset" where
  "create_squad_dataset file_path seq_length batch_size is_training custom_training_loop =
     (let name_to_features = squad_name_to_features seq_length is_training;
          input_fn = file_based_input_fn_builder file_path name_to_features;
          dataset = input_fn ();
          dataset = MapDataset SquadSelect dataset;
          dataset = (if is_training
                     then (let dataset = Shuffle 100 True dataset
                           in if custom_training_loop then Repeat dataset else dataset)
                     else dataset);
          dataset = Batch batch_size False dataset;
          dataset = Prefetch 1024 dataset
      in dataset)"

definition create_squad_dataset_v2 ::
  "input_file \<Rightarrow> int \<Rightarrow> int \<Rightarrow> bool \<Rightarrow> bool \<Rightarrow> dataset" where
  "create_squad_dataset_v2 file_path seq_length batch_size is_training custom_training_loop =
     (let name_to_features = squad_v2_name_to_features seq_length is_training;
          input_fn = file_based_input_fn_builder file_path name_to_features;
          dataset = input_fn ();
          dataset = MapDataset SquadV2Select dataset;
          dataset = (if is_training
                     then (let dataset = Shuffle 100 True dataset
                           in if custom_training_loop then Repeat dataset else dataset)
                     else dataset);
          dataset = Batch batch_size False dataset;
          dataset = Prefetch 1024 dataset
      in dataset)"

section \<open>Reading a constructed dataset\<close>

text \<open>Which stages a dataset object was built with.\<close>

primrec has_shuffle :: "dataset \<Rightarrow> bool" where
  "has_shuffle (TFRecordDataset f) = False"
| "has_shuffle (MapDataset fn d) = has_shuffle d"
| "has_shuffle (WithOptions opts d) = has_shuffle d"
| "has_shuffle (Shuffle n r d) = True"
| "has_shuffle (Repeat d) = has_shuffle d"
| "has_shuffle (Batch n r d) = has_shuffle d"
| "has_shuffle (Prefetch n d) = has_shuffle d"

primrec has_repeat :: "dataset \<Rightarrow> bool" where
  "has_repeat (TFRecordDataset f) = False"
| "has_repeat (MapDataset fn d) = has_repeat d"
| "has_repeat (WithOptions opts d) = has_repeat d"
| "has_repeat (Shuffle n r d) = has_repeat d"
| "has_repeat (Repeat d) = True"
| "has_repeat (Batch n r d) = has_repeat d"
| "has_repeat (Prefetch n d) = has_repeat d"

text \<open>The options objects passed to \<open>with_options\<close>, innermost first.\<close>

primrec options_issued :: "dataset \<Rightarrow> options list" where
  "options_issued (TFRecordDataset f) = []"
| "options_issued (MapDataset fn d) = options_issued d"
| "options_issued (WithOptions opts d) = options_issued d @ [opts]"
| "options_issued (Shuffle n r d) = options_issued d"
| "options_issued (Repeat d) = options_issued d"
| "options_issued (Batch n r d) = options_issued d"
| "options_issued (Prefetch n d) = options_issued d"

text \<open>The batch and prefetch calls with their arguments, innermost first.\<close>

datatype policy = BatchPolicy int bool | PrefetchPolicy int

primrec batch_prefetch_policy :: "dataset \<Rightarrow> policy list" where
  "batch_prefetch_policy (TFRecordDataset f) = []"
| "batch_prefetch_policy (MapDataset fn d) = batch_prefetch_policy d"
| "batch_prefetch_policy (WithOptions opts d) = batch_prefetch_policy d"
| "batch_prefetch_policy (Shuffle n r d) = batch_prefetch_policy d"
| "batch_prefetch_policy (Repeat d) = batch_prefetch_policy d"
| "batch_prefetch_policy (Batch n r d) = batch_prefetch_policy d @ [BatchPolicy n r]"
| "batch_prefetch_policy (Prefetch n d) = batch_prefetch_policy d @ [PrefetchPolicy n]"

text \<open>The functions passed to \<open>map\<close>, innermost first.\<close>

primrec map_fns :: "dataset \<Rightarrow> map_fn list" where
  "map_fns (TFRecordDataset f) = []"
| "map_fns (MapDataset fn d) = map_fns d @ [fn]"
| "map_fns (WithOptions opts d) = map_fns d"
| "map_fns (Shuffle n r d) = map_fns d"
| "map_fns (Repeat d) = map_fns d"
| "map_fns (Batch n r d) = map_fns d"
| "map_fns (Prefetch n d) = map_fns d"

text \<open>
  What one record of the file goes through. An element is a serialized record, a decoded
  example, or the pair \<open>(x, y)\<close> a select function returns. \<open>map\<close> applies its function
  to each element; a function applied to an element of the wrong kind is a
  \<open>TypeError\<close>. \<open>process_record\<close> sends one serialized record through the mapped
  functions of a dataset in order and stops at the first error.
\<close>

datatype ('r, 'f) element =
    Serialized 'r
  | Example "'f example"
  | ClassifierPair "'f example" "'f tensor"
  | SquadPair "'f example" "'f example"

fun apply_map_fn ::
  "('r \<Rightarrow> schema \<Rightarrow> 'e + 'f example) \<Rightarrow> map_fn \<Rightarrow> ('r, 'f) element
     \<Rightarrow> 'e error + ('r, 'f) element" where
  "apply_map_fn parse (DecodeRecord name_to_features) (Serialized record) =
     (case decode_record parse record name_to_features of
        Inl e \<Rightarrow> Inl e
      | Inr example \<Rightarrow> Inr (Example example))"
| "apply_map_fn parse ClassifierSelect (Example record) =
     (case classifier_select_data_from_record record of
        Inl e \<Rightarrow> Inl e
      | Inr (x, y) \<Rightarrow> Inr (ClassifierPair x y))"
| "apply_map_fn parse SquadSelect (Example record) =
     (case squad_select_data_from_record record of (x, y) \<Rightarrow> Inr (SquadPair x y))"
| "apply_map_fn parse SquadV2Select (Example record) =
     (case squad_v2_select_data_from_record record of (x, y) \<Rightarrow> Inr (SquadPair x y))"
| "apply_map_fn parse fn el = Inl TypeError"

fun process ::
  "('r \<Rightarrow> schema \<Rightarrow> 'e + 'f example) \<Rightarrow> map_fn list \<Rightarrow> ('r, 'f) element
     \<Rightarrow> 'e error + ('r, 'f) element" where
  "process parse [] el = Inr el"
| "process parse (fn # fns) el =
     (case apply_map_fn parse fn el of
        Inl e \<Rightarrow> Inl e
      | Inr el' \<Rightarrow> process parse fns el')"

definition process_record ::
  "('r \<Rightarrow> schema \<Rightarrow> 'e + 'f example) \<Rightarrow> dataset \<Rightarrow> 'r \<Rightarrow> 'e error + ('r, 'f) element" where
  "process_record parse d record = process parse (map_fns d) (Serialized record)"

section \<open>A sample parser and a sample record\<close>

text \<open>
  A stand-in for the library's parser, used only to exhibit concrete runs: a serialized
  record lists the raw values of each feature, and parsing against a schema looks every
  declared feature up, checks that the number of values fits the declared shape, and
  builds a tensor of the declared dtype. Features that the schema does not declare are
  ignored; a missing feature or a wrong number of values is an error. Float values are
  written as integers here.
\<close>

fun sample_parse_feature :: "feature \<Rightarrow> int list \<Rightarrow> unit + int tensor" where
  "sample_parse_feature (FixedLenFeature shape Int64) vals =
     (if int (length vals) = prod_list shape
      then Inr (TInt64 (map nat shape) (map of_int vals)) else Inl ())"
| "sample_parse_feature (FixedLenFeature shape Float32) vals =
     (if int (length vals) = prod_list shape
      then Inr (TFloat32 (map nat shape) vals) else Inl ())"
| "sample_parse_feature feat vals = Inl ()"

fun sample_parse_single_example ::
  "(string, int list) dict \<Rightarrow> schema \<Rightarrow> unit + int example" where
  "sample_parse_single_example serialized [] = Inr []"
| "sample_parse_single_example serialized ((name, feat) # rest) =
     (case map_of serialized name of
        None \<Rightarrow> Inl ()
      | Some vals \<Rightarrow>
          (case sample_parse_feature feat vals of
             Inl e \<Rightarrow> Inl e
           | Inr t \<Rightarrow>
               (case sample_parse_single_example serialized rest of
                  Inl e \<Rightarrow> Inl e
                | Inr ex \<Rightarrow> Inr ((name, t) # ex))))"

definition sample_serialized :: "(string, int list) dict" where
  "sample_serialized =
     [(''unique_ids'', [1000000007]),
      (''input_ids'', [101, 2054, 102]),
      (''input_mask'', [1, 1, 1]),
      (''segment_ids'', [0, 0, 0]),
      (''p_mask'', [1, 0, 1]),
      (''label_ids'', [1]),
      (''is_real_example'', [1]),
      (''start_positions'', [1]),
      (''end_positions'', [2]),
      (''is_impossible'', [0])]"

text \<open>Two decoded records, as the select functions receive them.\<close>

definition sample_squad_record :: "int example" where
  "sample_squad_record =
     [(''unique_ids'', TInt32 [] [1000000007]),
      (''input_ids'', TInt32 [3] [101, 2054, 102]),
      (''input_mask'', TFloat32 [3] [1, 1, 1]),
      (''segment_ids'', TInt32 [3] [0, 0, 0]),
      (''p_mask'', TFloat32 [3] [1, 0, 1]),
      (''start_positions'', TInt32 [] [1]),
      (''end_positions'', TInt32 [] [2]),
      (''is_impossible'', TFloat32 [] [0])]"

definition sample_classifier_record :: "int example" where
  "sample_classifier_record =
     [(''input_ids'', TInt32 [3] [101, 2054, 102]),
      (''input_mask'', TInt32 [3] [1, 1, 1]),
      (''segment_ids'', TInt32 [3] [0, 0, 0]),
      (''label_ids'', TInt32 [] [1]),
      (''is_real_example'', TInt32 [] [1])]"

section \<open>Dictionary lemmas\<close>

lemma map_of_dict_set: "map_of (dict_set d k v) = (map_of d)(k \<mapsto> v)"
  by (induction d) (auto simp: fun_eq_iff)

lemma keys_dict_set_present:
  "k \<in> set (keys d) \<Longrightarrow> keys (dict_set d k v) = keys d"
  by (induction d) (force simp: keys_def)+

lemma map_of_None_keys: "map_of d k = None \<longleftrightarrow> k \<notin> set (keys d)"
  by (simp add: keys_def map_of_eq_None_iff)

lemma wf_dict_map_of: "wf_dict d \<Longrightarrow> (k, v) \<in> set d \<longleftrightarrow> map_of d k = Some v"
  by (auto simp: wf_dict_def dest: map_of_SomeD)

lemma dict_set_absent: "k \<notin> set (keys d) \<Longrightarrow> dict_set d k v = d @ [(k, v)]"
  by (induction d) (auto simp: keys_def)

section \<open>The select loop of the squad variants\<close>

lemma select_loop_filter:
  "distinct (keys items) \<Longrightarrow> set (keys items) \<inter> (set (keys x) \<union> set (keys y)) = {} \<Longrightarrow>
   select_loop labels items (x, y) =
     (x @ filter (\<lambda>(n, t). n \<notin> set labels) items,
      y @ filter (\<lambda>(n, t). n \<in> set labels) items)"
proof (induction items arbitrary: x y)
  case Nil
  then show ?case by simp
next
  case (Cons item items)
  obtain name tensor where item: "item = (name, tensor)" by (cases item)
  from Cons.prems item have fresh: "name \<notin> set (keys x)" "name \<notin> set (keys y)"
    and d: "distinct (keys items)" and nin: "name \<notin> set (keys items)"
    and disj: "set (keys items) \<inter> (set (keys x) \<union> set (keys y)) = {}"
    by (auto simp: keys_def)
  show ?case
  proof (cases "name \<in> set labels")
    case True
    have "set (keys items) \<inter> (set (keys x) \<union> set (keys (y @ [(name, tensor)]))) = {}"
      using disj nin by (auto simp: keys_def)
    from Cons.IH [OF d this] show ?thesis
      using True item fresh by (simp add: dict_set_absent)
  next
    case False
    have "set (keys items) \<inter> (set (keys (x @ [(name, tensor)])) \<union> set (keys y)) = {}"
      using disj nin by (auto simp: keys_def)
    from Cons.IH [OF d this] show ?thesis
      using False item fresh by (simp add: dict_set_absent)
  qed
qed

lemma select_loop_wf:
  "wf_dict record \<Longrightarrow>
   select_loop labels record ([], []) =
     (filter (\<lambda>(n, t). n \<notin> set labels) record, filter (\<lambda>(n, t). n \<in> set labels) record)"
  using select_loop_filter [of "record" "[]" "[]" labels] by (simp add: wf_dict_def keys_def)

lemma wf_dict_filter: "wf_dict d \<Longrightarrow> wf_dict (filter P d)"
  by (simp add: wf_dict_def distinct_map_filter)

lemma select_loop_partition:
  assumes "wf_dict record" and "select_loop labels record ([], []) = (x, y)"
  shows "set y = {(n, t). (n, t) \<in> set record \<and> n \<in> set labels}"
    and "set x = {(n, t). (n, t) \<in> set record \<and> n \<notin> set labels}"
    and "set (keys x) \<inter> set (keys y) = {}"
    and "set x \<union> set y = set record"
    and "set x \<inter> set y = {}"
    and "wf_dict x"
    and "wf_dict y"
proof -
  have x: "x = filter (\<lambda>(n, t). n \<notin> set labels) record"
    and y: "y = filter (\<lambda>(n, t). n \<in> set labels) record"
    using assms(2) select_loop_wf [OF assms(1), of labels] by simp_all
  show "set y = {(n, t). (n, t) \<in> set record \<and> n \<in> set labels}"
    and "set x = {(n, t). (n, t) \<in> set record \<and> n \<notin> set labels}"
    and "set (keys x) \<inter> set (keys y) = {}"
    and "set x \<union> set y = set record"
    and "set x \<inter> set y = {}"
    unfolding x y by (auto simp: keys_def)
  show "wf_dict x" and "wf_dict y"
    unfolding x y using assms(1) by (simp_all add: wf_dict_filter)
qed

lemma select_loop_no_labels:
  assumes "wf_dict d" and "set (keys d) \<inter> set labels = {}"
  shows "select_loop labels d ([], []) = (d, [])"
proof -
  have "filter (\<lambda>(n, t). n \<notin> set labels) d = d"
    using assms(2) by (auto simp: keys_def filter_id_conv)
  moreover have "filter (\<lambda>(n, t). n \<in> set labels) d = []"
    using assms(2) by (auto simp: keys_def filter_empty_conv)
  ultimately show ?thesis using select_loop_wf [OF assms(1), of labels] by simp
qed

section \<open>The cast loop\<close>

lemma cast_if_int64_idem: "cast_if_int64 (cast_if_int64 t) = cast_if_int64 t"
  by (cases t) simp_all

lemma cast_if_int64_not_int64: "dtype_of (cast_if_int64 t) \<noteq> Int64"
  by (cases t) simp_all

lemma cast_if_int64_other: "dtype_of t \<noteq> Int64 \<Longrightarrow> cast_if_int64 t = t"
  by (cases t) simp_all

lemma cast_loop_result:
  "set names \<subseteq> set (keys example) \<Longrightarrow>
   \<exists>decoded. cast_loop names example = (Inr decoded :: 'e error + 'f example)
     \<and> keys decoded = keys example
     \<and> map_of decoded =
         (\<lambda>n. if n \<in> set names then map_option cast_if_int64 (map_of example n)
              else map_of example n)"
proof (induction names arbitrary: example)
  case Nil
  then show ?case by simp
next
  case (Cons name names)
  from Cons.prems have present: "name \<in> set (keys example)" by simp
  then obtain t where t: "map_of example name = Some t"
    using map_of_None_keys [of example name] by (cases "map_of example name") auto
  let ?ex = "dict_set example name (cast_if_int64 t)"
  have k: "keys ?ex = keys example" using present by (rule keys_dict_set_present)
  with Cons.prems have "set names \<subseteq> set (keys ?ex)" by simp
  from Cons.IH [OF this] obtain decoded where
    d: "cast_loop names ?ex = (Inr decoded :: 'e error + 'f example)"
       "keys decoded = keys ?ex"
       "map_of decoded =
          (\<lambda>n. if n \<in> set names then map_option cast_if_int64 (map_of ?ex n)
               else map_of ?ex n)"
    by blast
  have "cast_loop (name # names) example = (Inr decoded :: 'e error + 'f example)"
    using t d(1) by (simp add: dict_get_def)
  moreover have "keys decoded = keys example" using d(2) k by simp
  moreover have "map_of decoded =
      (\<lambda>n. if n \<in> set (name # names) then map_option cast_if_int64 (map_of example n)
           else map_of example n)"
    using t by (auto simp: d(3) map_of_dict_set fun_eq_iff cast_if_int64_idem)
  ultimately show ?case by blast
qed

section \<open>What a record goes through in each dataset\<close>

lemma decode_record_cases:
  fixes parse :: "'r \<Rightarrow> schema \<Rightarrow> 'e + 'f example"
  shows "(\<exists>e. parse r s = Inl e \<and> decode_record parse r s = Inl (LibraryError e))
    \<or> (\<exists>ex decoded. parse r s = Inr ex \<and> decode_record parse r s = Inr decoded
          \<and> keys decoded = keys ex
          \<and> map_of decoded = (\<lambda>n. map_option cast_if_int64 (map_of ex n)))"
proof (cases "parse r s")
  case (Inl e)
  then show ?thesis by (simp add: decode_record_def)
next
  case (Inr ex)
  have "set (keys ex) \<subseteq> set (keys ex)" by simp
  from cast_loop_result [OF this] obtain decoded where
    d: "cast_loop (keys ex) ex = (Inr decoded :: 'e error + 'f example)"
       "keys decoded = keys ex"
       "map_of decoded =
          (\<lambda>n. if n \<in> set (keys ex) then map_option cast_if_int64 (map_of ex n)
               else map_of ex n)"
    by blast
  have "map_of decoded n = map_option cast_if_int64 (map_of ex n)" for n
    using map_of_None_keys [of ex n] by (auto simp: d(3))
  then have "map_of decoded = (\<lambda>n. map_option cast_if_int64 (map_of ex n))" by auto
  with Inr d(1,2) show ?thesis by (simp add: decode_record_def)
qed

lemma map_fns_input_fn: "map_fns (file_based_input_fn_builder f s ()) = [DecodeRecord s]"
  by (simp add: file_based_input_fn_builder_def Let_def)

lemma process_record_input_fn:
  "process_record parse (file_based_input_fn_builder f s ()) r =
     (case decode_record parse r s of Inl e \<Rightarrow> Inl e | Inr ex \<Rightarrow> Inr (Example ex))"
  by (simp add: process_record_def map_fns_input_fn split: sum.splits)

lemma process_record_classifier:
  "process_record parse (create_classifier_dataset f sl bs tr dr ctl) r =
     (case decode_record parse r (classifier_name_to_features sl) of
        Inl e \<Rightarrow> Inl e
      | Inr ex \<Rightarrow>
          (case classifier_select_data_from_record ex of
             Inl e \<Rightarrow> Inl e
           | Inr (x, y) \<Rightarrow> Inr (ClassifierPair x y)))"
  by (simp add: process_record_def create_classifier_dataset_def map_fns_input_fn Let_def
      split: sum.splits)

lemma process_record_squad:
  "process_record parse (create_squad_dataset f sl bs tr ctl) r =
     (case decode_record parse r (squad_name_to_features sl tr) of
        Inl e \<Rightarrow> Inl e
      | Inr ex \<Rightarrow>
          (case squad_select_data_from_record ex of (x, y) \<Rightarrow> Inr (SquadPair x y)))"
  by (simp add: process_record_def create_squad_dataset_def map_fns_input_fn Let_def
      split: sum.splits)

lemma process_record_squad_v2:
  "process_record parse (create_squad_dataset_v2 f sl bs tr ctl) r =
     (case decode_record parse r (squad_v2_name_to_features sl tr) of
        Inl e \<Rightarrow> Inl e
      | Inr ex \<Rightarrow>
          (case squad_v2_select_data_from_record ex of (x, y) \<Rightarrow> Inr (SquadPair x y)))"
  by (simp add: process_record_def create_squad_dataset_v2_def map_fns_input_fn Let_def
      split: sum.splits)

lemma classifier_select_not_library_error:
  "classifier_select_data_from_record r \<noteq> Inl (LibraryError e)"
  by (simp add: classifier_select_data_from_record_def dict_get_def Let_def
      split: option.splits)

lemma sample_parse_squad_eval:
  "sample_parse_single_example sample_serialized (squad_name_to_features 3 False) =
     Inr [(''unique_ids'', TInt64 [] [1000000007]),
          (''input_ids'', TInt64 [3] [101, 2054, 102]),
          (''input_mask'', TInt64 [3] [1, 1, 1]),
          (''segment_ids'', TInt64 [3] [0, 0, 0])]"
  by (simp add: sample_serialized_def squad_name_to_features_def)

lemma sample_parse_squad_v2_eval:
  "sample_parse_single_example sample_serialized (squad_v2_name_to_features 3 False) =
     Inr [(''unique_ids'', TInt64 [] [1000000007]),
          (''input_ids'', TInt64 [3] [101, 2054, 102]),
          (''input_mask'', TFloat32 [3] [1, 1, 1]),
          (''segment_ids'', TInt64 [3] [0, 0, 0]),
          (''p_mask'', TFloat32 [3] [1, 0, 1])]"
  by (simp add: sample_serialized_def squad_v2_name_to_features_def)

section \<open>Claims about decode_record\<close>

text \<open>
  Claim C1. Whenever the library's parse operation returns an example (a dictionary,
  so with distinct keys), \<open>decode_record\<close> returns a dictionary with the same keys in
  the same order in which every field that was parsed as an int64 tensor holds the same
  shape and the same values cast to int32, every other field is unchanged, and no field
  has dtype int64.
\<close>

theorem decode_record_casts_int64:
  fixes parse :: "'r \<Rightarrow> schema \<Rightarrow> 'e + 'f example"
  assumes "parse record name_to_features = Inr example" and "wf_dict example"
  shows "\<exists>decoded. decode_record parse record name_to_features = Inr decoded
     \<and> keys decoded = keys example
     \<and> (\<forall>name sh ws. map_of example name = Some (TInt64 sh ws)
           \<longrightarrow> map_of decoded name = Some (TInt32 sh (map ucast ws)))
     \<and> (\<forall>name t. map_of example name = Some t \<longrightarrow> dtype_of t \<noteq> Int64
           \<longrightarrow> map_of decoded name = Some t)
     \<and> (\<forall>(name, t) \<in> set decoded. dtype_of t \<noteq> Int64)"
proof -
  have "set (keys example) \<subseteq> set (keys example)" by simp
  from cast_loop_result [OF this] obtain decoded where
    d: "cast_loop (keys example) example = (Inr decoded :: 'e error + 'f example)"
       "keys decoded = keys example"
       "map_of decoded =
          (\<lambda>n. if n \<in> set (keys example) then map_option cast_if_int64 (map_of example n)
               else map_of example n)"
    by blast
  have m: "map_of decoded n = map_option cast_if_int64 (map_of example n)" for n
    using map_of_None_keys [of example n] by (auto simp: d(3))
  have "decode_record parse record name_to_features = Inr decoded"
    using assms(1) d(1) by (simp add: decode_record_def)
  moreover have "\<forall>name sh ws. map_of example name = Some (TInt64 sh ws)
           \<longrightarrow> map_of decoded name = Some (TInt32 sh (map ucast ws))"
    by (simp add: m tf_cast_int64_to_int32_def)
  moreover have "\<forall>name t. map_of example name = Some t \<longrightarrow> dtype_of t \<noteq> Int64
           \<longrightarrow> map_of decoded name = Some t"
    by (simp add: m cast_if_int64_other)
  moreover have "\<forall>(name, t) \<in> set decoded. dtype_of t \<noteq> Int64"
  proof (clarify)
    fix name t assume "(name, t) \<in> set decoded" "dtype_of t = Int64"
    moreover have "wf_dict decoded" using assms(2) d(2) by (simp add: wf_dict_def keys_def)
    ultimately have "map_of decoded name = Some t" by (simp add: wf_dict_map_of)
    then obtain t' where "t = cast_if_int64 t'" by (auto simp: m)
    with \<open>dtype_of t = Int64\<close> show False by (simp add: cast_if_int64_not_int64)
  qed
  ultimately show ?thesis using d(2) by blast
qed

text \<open>
  The hypotheses of C1 hold for a record with one int64 field, one of whose values does
  not fit 32 bits, and one float field.
\<close>

theorem decode_record_casts_int64_witness:
  "\<exists>decoded. decode_record (\<lambda>r s. Inr r :: unit + unit example)
         [(''input_ids'', TInt64 [2] [5, 4294967303]), (''input_mask'', TFloat32 [1] [()])]
         (classifier_name_to_features 2) = Inr decoded
     \<and> keys decoded =
         keys [(''input_ids'', TInt64 [2] [5, 4294967303]), (''input_mask'', TFloat32 [1] [()])]
     \<and> (\<forall>name sh ws.
           map_of [(''input_ids'', TInt64 [2] [5, 4294967303]), (''input_mask'', TFloat32 [1] [()])]
             name = Some (TInt64 sh ws)
           \<longrightarrow> map_of decoded name = Some (TInt32 sh (map ucast ws)))
     \<and> (\<forall>name t.
           map_of [(''input_ids'', TInt64 [2] [5, 4294967303]), (''input_mask'', TFloat32 [1] [()])]
             name = Some t \<longrightarrow> dtype_of t \<noteq> Int64
           \<longrightarrow> map_of decoded name = Some t)
     \<and> (\<forall>(name, t) \<in> set decoded. dtype_of t \<noteq> Int64)"
  by (rule decode_record_casts_int64) (simp_all add: wf_dict_def)

text \<open>
  Claim C4. The module has no handler for a failed parse. \<open>decode_record\<close> raises
  exactly when the library's parse operation raises, and then with the library's own
  error; otherwise it returns an example. The same holds for what a record goes through
  in the dataset of \<open>input_fn\<close> and in the two squad datasets; in the classifier
  dataset the library's error \<open>e\<close> comes out exactly when the parse operation raised
  \<open>e\<close>.
\<close>

theorem parse_errors_propagate:
  fixes parse :: "'r \<Rightarrow> schema \<Rightarrow> 'e + 'f example"
  shows
  "(decode_record parse record name_to_features = Inl err
      \<longleftrightarrow> (\<exists>e. parse record name_to_features = Inl e \<and> err = LibraryError e))
   \<and> ((\<exists>decoded. decode_record parse record name_to_features = Inr decoded)
      \<longleftrightarrow> (\<exists>example. parse record name_to_features = Inr example))
   \<and> (process_record parse (file_based_input_fn_builder input_file name_to_features ()) record
        = Inl err
      \<longleftrightarrow> (\<exists>e. parse record name_to_features = Inl e \<and> err = LibraryError e))
   \<and> (process_record parse (create_classifier_dataset f sl bs tr dr ctl) record
        = Inl (LibraryError e)
      \<longleftrightarrow> parse record (classifier_name_to_features sl) = Inl e)
   \<and> (process_record parse (create_squad_dataset f sl bs tr ctl) record = Inl err
      \<longleftrightarrow> (\<exists>e. parse record (squad_name_to_features sl tr) = Inl e \<and> err = LibraryError e))
   \<and> (process_record parse (create_squad_dataset_v2 f sl bs tr ctl) record = Inl err
      \<longleftrightarrow> (\<exists>e. parse record (squad_v2_name_to_features sl tr) = Inl e
             \<and> err = LibraryError e))"
proof -
  have 1: "decode_record parse record s = Inl err'
      \<longleftrightarrow> (\<exists>e. parse record s = Inl e \<and> err' = LibraryError e)" for s err'
    using decode_record_cases [of parse "record" s] by auto
  have 2: "(\<exists>decoded. decode_record parse record name_to_features = Inr decoded)
      \<longleftrightarrow> (\<exists>example. parse record name_to_features = Inr example)"
    using decode_record_cases [of parse "record" name_to_features] by auto
  have 3: "process_record parse (file_based_input_fn_builder input_file name_to_features ()) record
        = Inl err
      \<longleftrightarrow> (\<exists>e. parse record name_to_features = Inl e \<and> err = LibraryError e)"
    using 1 [of name_to_features err] by (auto simp: process_record_input_fn split: sum.splits)
  have 4: "process_record parse (create_classifier_dataset f sl bs tr dr ctl) record
        = Inl (LibraryError e)
      \<longleftrightarrow> parse record (classifier_name_to_features sl) = Inl e"
    using 1 [of "classifier_name_to_features sl" "LibraryError e"]
    by (auto simp: process_record_classifier classifier_select_not_library_error
        split: sum.splits)
  have 5: "process_record parse (create_squad_dataset f sl bs tr ctl) record = Inl err
      \<longleftrightarrow> (\<exists>e. parse record (squad_name_to_features sl tr) = Inl e \<and> err = LibraryError e)"
    using 1 [of "squad_name_to_features sl tr" err]
    by (auto simp: process_record_squad split: sum.splits prod.splits)
  have 6: "process_record parse (create_squad_dataset_v2 f sl bs tr ctl) record = Inl err
      \<longleftrightarrow> (\<exists>e. parse record (squad_v2_name_to_features sl tr) = Inl e
             \<and> err = LibraryError e)"
    using 1 [of "squad_v2_name_to_features sl tr" err]
    by (auto simp: process_record_squad_v2 split: sum.splits prod.splits)
  show ?thesis using 1 [of name_to_features err] 2 3 4 5 6 by blast
qed

section \<open>Claims about the select functions\<close>

text \<open>
  Claim C2. For a record (a dictionary, so with distinct keys), the select functions of
  \<open>create_squad_dataset\<close> and \<open>create_squad_dataset_v2\<close> return a pair \<open>(x, y)\<close> of
  dictionaries that partitions the fields of the record: \<open>y\<close> holds exactly the fields
  named \<open>start_positions\<close> or \<open>end_positions\<close> (and \<open>is_impossible\<close> in the v2 variant),
  \<open>x\<close> holds exactly the other fields, no name is a key of both, and every field of the
  record is in one of them with its value.
\<close>

theorem squad_select_partitions_record:
  assumes "wf_dict record"
    and "squad_select_data_from_record record = (x, y)"
    and "squad_v2_select_data_from_record record = (x2, y2)"
  shows "set y = {(n, t). (n, t) \<in> set record \<and> n \<in> {''start_positions'', ''end_positions''}}
    \<and> set x = {(n, t). (n, t) \<in> set record \<and> n \<notin> {''start_positions'', ''end_positions''}}
    \<and> set (keys x) \<inter> set (keys y) = {}
    \<and> set x \<union> set y = set record \<and> set x \<inter> set y = {}
    \<and> wf_dict x \<and> wf_dict y
    \<and> set y2 = {(n, t). (n, t) \<in> set record
                   \<and> n \<in> {''start_positions'', ''end_positions'', ''is_impossible''}}
    \<and> set x2 = {(n, t). (n, t) \<in> set record
                   \<and> n \<notin> {''start_positions'', ''end_positions'', ''is_impossible''}}
    \<and> set (keys x2) \<inter> set (keys y2) = {}
    \<and> set x2 \<union> set y2 = set record \<and> set x2 \<inter> set y2 = {}
    \<and> wf_dict x2 \<and> wf_dict y2"
proof -
  have 1: "select_loop [''start_positions'', ''end_positions''] record ([], []) = (x, y)"
    using assms(2) by (simp add: squad_select_data_from_record_def)
  have 2: "select_loop [''start_positions'', ''end_positions'', ''is_impossible'']
             record ([], []) = (x2, y2)"
    using assms(3) by (simp add: squad_v2_select_data_from_record_def)
  show ?thesis
    using select_loop_partition [OF assms(1) 1] select_loop_partition [OF assms(1) 2]
    by simp
qed

text \<open>
  The sample record, which holds all three label fields, split by both variants.
\<close>

theorem squad_select_partitions_record_witness:
  "wf_dict sample_squad_record
   \<and> squad_select_data_from_record sample_squad_record =
       ([(''unique_ids'', TInt32 [] [1000000007]),
         (''input_ids'', TInt32 [3] [101, 2054, 102]),
         (''input_mask'', TFloat32 [3] [1, 1, 1]),
         (''segment_ids'', TInt32 [3] [0, 0, 0]),
         (''p_mask'', TFloat32 [3] [1, 0, 1]),
         (''is_impossible'', TFloat32 [] [0])],
        [(''start_positions'', TInt32 [] [1]),
         (''end_positions'', TInt32 [] [2])])
   \<and> squad_v2_select_data_from_record sample_squad_record =
       ([(''unique_ids'', TInt32 [] [1000000007]),
         (''input_ids'', TInt32 [3] [101, 2054, 102]),
         (''input_mask'', TFloat32 [3] [1, 1, 1]),
         (''segment_ids'', TInt32 [3] [0, 0, 0]),
         (''p_mask'', TFloat32 [3] [1, 0, 1])],
        [(''start_positions'', TInt32 [] [1]),
         (''end_positions'', TInt32 [] [2]),
         (''is_impossible'', TFloat32 [] [0])])
   \<and> set [(''start_positions'', TInt32 [] [1]), (''end_positions'', TInt32 [] [2])]
       = {(n, t). (n, t) \<in> set sample_squad_record
            \<and> n \<in> {''start_positions'', ''end_positions''}}
   \<and> set [(''start_positions'', TInt32 [] [1]), (''end_positions'', TInt32 [] [2]),
            (''is_impossible'', TFloat32 [] [0])]
       = {(n, t). (n, t) \<in> set sample_squad_record
            \<and> n \<in> {''start_positions'', ''end_positions'', ''is_impossible''}}"
proof -
  have h1: "wf_dict sample_squad_record"
    by (simp add: wf_dict_def sample_squad_record_def)
  have h2: "squad_select_data_from_record sample_squad_record =
       ([(''unique_ids'', TInt32 [] [1000000007]),
         (''input_ids'', TInt32 [3] [101, 2054, 102]),
         (''input_mask'', TFloat32 [3] [1, 1, 1]),
         (''segment_ids'', TInt32 [3] [0, 0, 0]),
         (''p_mask'', TFloat32 [3] [1, 0, 1]),
         (''is_impossible'', TFloat32 [] [0])],
        [(''start_positions'', TInt32 [] [1]),
         (''end_positions'', TInt32 [] [2])])"
    by (simp add: squad_select_data_from_record_def sample_squad_record_def)
  have h3: "squad_v2_select_data_from_record sample_squad_record =
       ([(''unique_ids'', TInt32 [] [1000000007]),
         (''input_ids'', TInt32 [3] [101, 2054, 102]),
         (''input_mask'', TFloat32 [3] [1, 1, 1]),
         (''segment_ids'', TInt32 [3] [0, 0, 0]),
         (''p_mask'', TFloat32 [3] [1, 0, 1])],
        [(''start_positions'', TInt32 [] [1]),
         (''end_positions'', TInt32 [] [2]),
         (''is_impossible'', TFloat32 [] [0])])"
    by (simp add: squad_v2_select_data_from_record_def sample_squad_record_def)
  show ?thesis
    apply (insert squad_select_partitions_record [OF h1 h2 h3] h1 h2 h3)
    apply (elim conjE)
    apply (intro conjI)
        apply assumption+
    done
qed

text \<open>
  Claim C8. For a record that holds \<open>input_ids\<close>, \<open>input_mask\<close>, \<open>segment_ids\<close> and
  \<open>label_ids\<close>, the select function of \<open>create_classifier_dataset\<close> returns \<open>(x, y)\<close>
  where \<open>x\<close> has exactly the keys \<open>input_word_ids\<close>, \<open>input_mask\<close> and
  \<open>input_type_ids\<close> with the values of those three fields, and \<open>y\<close> is the value of
  \<open>label_ids\<close>. \<open>is_real_example\<close> is no key of \<open>x\<close>, and the result does not depend
  on the value of that field.
\<close>

theorem classifier_select_fields:
  assumes "map_of (record :: 'f example) ''input_ids'' = Some v_ids"
    and "map_of record ''input_mask'' = Some v_mask"
    and "map_of record ''segment_ids'' = Some v_segs"
    and "map_of record ''label_ids'' = Some v_label"
  shows "classifier_select_data_from_record record
       = (Inr ([(''input_word_ids'', v_ids), (''input_mask'', v_mask),
               (''input_type_ids'', v_segs)], v_label) :: 'e error + _)
     \<and> classifier_select_data_from_record (dict_set record ''is_real_example'' v)
       = (classifier_select_data_from_record record :: 'e error + _)
     \<and> ''is_real_example'' \<notin> set (keys [(''input_word_ids'', v_ids), (''input_mask'', v_mask),
               (''input_type_ids'', v_segs)])"
  using assms
  by (simp add: classifier_select_data_from_record_def dict_get_def map_of_dict_set keys_def)

text \<open>The sample classifier record.\<close>

theorem classifier_select_fields_witness:
  "classifier_select_data_from_record sample_classifier_record
     = (Inr ([(''input_word_ids'', TInt32 [3] [101, 2054, 102]),
              (''input_mask'', TInt32 [3] [1, 1, 1]),
              (''input_type_ids'', TInt32 [3] [0, 0, 0])], TInt32 [] [1])
        :: unit error + int example \<times> int tensor)
   \<and> classifier_select_data_from_record
         (dict_set sample_classifier_record ''is_real_example'' (TInt32 [] [0]))
     = (classifier_select_data_from_record sample_classifier_record
        :: unit error + int example \<times> int tensor)"
proof -
  have h1: "map_of sample_classifier_record ''input_ids'' = Some (TInt32 [3] [101, 2054, 102])"
    and h2: "map_of sample_classifier_record ''input_mask'' = Some (TInt32 [3] [1, 1, 1])"
    and h3: "map_of sample_classifier_record ''segment_ids'' = Some (TInt32 [3] [0, 0, 0])"
    and h4: "map_of sample_classifier_record ''label_ids'' = Some (TInt32 [] [1])"
    by (simp_all add: sample_classifier_record_def)
  show ?thesis
    apply (insert classifier_select_fields [OF h1 h2 h3 h4, where v = "TInt32 [] [0]"])
    apply (elim conjE)
    apply (intro conjI)
     apply assumption+
    done
qed

text \<open>
  Claim C9. With \<open>is_training\<close> false the schemas of \<open>create_squad_dataset\<close> and
  \<open>create_squad_dataset_v2\<close> declare none of the label fields. So, for a record that the
  library parses into a dictionary holding declared fields only, what the record becomes
  in the dataset is the pair \<open>(x, y)\<close> where \<open>x\<close> is the whole decoded example and \<open>y\<close>
  is empty; a record that fails to parse yields the error and no element.
\<close>

theorem squad_eval_labels_empty:
  fixes parse :: "'r \<Rightarrow> schema \<Rightarrow> 'e + 'f example"
  assumes "\<And>ex. parse record (squad_name_to_features sl False) = Inr ex \<Longrightarrow>
             wf_dict ex \<and> set (keys ex) \<subseteq> set (keys (squad_name_to_features sl False))"
    and "\<And>ex. parse record (squad_v2_name_to_features sl False) = Inr ex \<Longrightarrow>
             wf_dict ex \<and> set (keys ex) \<subseteq> set (keys (squad_v2_name_to_features sl False))"
  shows "set (keys (squad_name_to_features sl False))
           \<inter> {''start_positions'', ''end_positions'', ''is_impossible''} = {}
     \<and> set (keys (squad_v2_name_to_features sl False))
           \<inter> {''start_positions'', ''end_positions'', ''is_impossible''} = {}
     \<and> process_record parse (create_squad_dataset f sl bs False ctl) record
         = (case decode_record parse record (squad_name_to_features sl False) of
              Inl e \<Rightarrow> Inl e | Inr x \<Rightarrow> Inr (SquadPair x []))
     \<and> process_record parse (create_squad_dataset_v2 f sl bs False ctl) record
         = (case decode_record parse record (squad_v2_name_to_features sl False) of
              Inl e \<Rightarrow> Inl e | Inr x \<Rightarrow> Inr (SquadPair x []))"
proof -
  have k1: "set (keys (squad_name_to_features sl False))
           \<inter> {''start_positions'', ''end_positions'', ''is_impossible''} = {}"
    by (simp add: squad_name_to_features_def keys_def)
  have k2: "set (keys (squad_v2_name_to_features sl False))
           \<inter> {''start_positions'', ''end_positions'', ''is_impossible''} = {}"
    by (simp add: squad_v2_name_to_features_def keys_def)
  have sel: "select_loop labels decoded ([], []) = (decoded, [])"
    if "decode_record parse record s = Inr decoded"
      and c: "\<And>ex. parse record s = Inr ex \<Longrightarrow> wf_dict ex \<and> set (keys ex) \<subseteq> set (keys s)"
      and "set (keys s) \<inter> set labels = {}"
    for s labels and decoded :: "'f example"
  proof -
    from decode_record_cases [of parse "record" s] that(1) obtain ex where
      ex: "parse record s = Inr ex" "keys decoded = keys ex" by auto
    from c [OF ex(1)] ex(2) have "wf_dict decoded" "set (keys decoded) \<subseteq> set (keys s)"
      by (simp_all add: wf_dict_def keys_def)
    with that(3) show ?thesis by (intro select_loop_no_labels) auto
  qed
  have p1: "process_record parse (create_squad_dataset f sl bs False ctl) record
         = (case decode_record parse record (squad_name_to_features sl False) of
              Inl e \<Rightarrow> Inl e | Inr x \<Rightarrow> Inr (SquadPair x []))"
  proof (cases "decode_record parse record (squad_name_to_features sl False)")
    case (Inl e)
    then show ?thesis by (simp add: process_record_squad)
  next
    case (Inr decoded)
    have "set (keys (squad_name_to_features sl False))
        \<inter> set [''start_positions'', ''end_positions''] = {}"
      using k1 by auto
    from sel [OF Inr assms(1) this] Inr show ?thesis
      by (simp add: process_record_squad squad_select_data_from_record_def)
  qed
  have p2: "process_record parse (create_squad_dataset_v2 f sl bs False ctl) record
         = (case decode_record parse record (squad_v2_name_to_features sl False) of
              Inl e \<Rightarrow> Inl e | Inr x \<Rightarrow> Inr (SquadPair x []))"
  proof (cases "decode_record parse record (squad_v2_name_to_features sl False)")
    case (Inl e)
    then show ?thesis by (simp add: process_record_squad_v2)
  next
    case (Inr decoded)
    have "set (keys (squad_v2_name_to_features sl False))
        \<inter> set [''start_positions'', ''end_positions'', ''is_impossible''] = {}"
      using k2 by auto
    from sel [OF Inr assms(2) this] Inr show ?thesis
      by (simp add: process_record_squad_v2 squad_v2_select_data_from_record_def)
  qed
  show ?thesis using k1 k2 p1 p2 by blast
qed

text \<open>
  The sample record in both evaluation datasets, parsed by the sample parser at
  \<open>seq_length = 3\<close>.
\<close>

theorem squad_eval_labels_empty_witness:
  "process_record sample_parse_single_example
       (create_squad_dataset (PathStr ''eval.tf_record'') 3 8 False False) sample_serialized
     = Inr (SquadPair
         [(''unique_ids'', TInt32 [] [1000000007]),
          (''input_ids'', TInt32 [3] [101, 2054, 102]),
          (''input_mask'', TInt32 [3] [1, 1, 1]),
          (''segment_ids'', TInt32 [3] [0, 0, 0])] [])
   \<and> process_record sample_parse_single_example
       (create_squad_dataset_v2 (PathStr ''eval.tf_record'') 3 8 False False) sample_serialized
     = Inr (SquadPair
         [(''unique_ids'', TInt32 [] [1000000007]),
          (''input_ids'', TInt32 [3] [101, 2054, 102]),
          (''input_mask'', TFloat32 [3] [1, 1, 1]),
          (''segment_ids'', TInt32 [3] [0, 0, 0]),
          (''p_mask'', TFloat32 [3] [1, 0, 1])] [])"
proof -
  have h1: "wf_dict ex \<and> set (keys ex) \<subseteq> set (keys (squad_name_to_features 3 False))"
    if "sample_parse_single_example sample_serialized (squad_name_to_features 3 False) = Inr ex"
    for ex
    using that unfolding sample_parse_squad_eval
    by (auto simp: wf_dict_def keys_def squad_name_to_features_def)
  have h2: "wf_dict ex \<and> set (keys ex) \<subseteq> set (keys (squad_v2_name_to_features 3 False))"
    if "sample_parse_single_example sample_serialized (squad_v2_name_to_features 3 False) = Inr ex"
    for ex
    using that unfolding sample_parse_squad_v2_eval
    by (auto simp: wf_dict_def keys_def squad_v2_name_to_features_def)
  have d1: "decode_record sample_parse_single_example sample_serialized
              (squad_name_to_features 3 False)
      = Inr [(''unique_ids'', TInt32 [] [1000000007]),
          (''input_ids'', TInt32 [3] [101, 2054, 102]),
          (''input_mask'', TInt32 [3] [1, 1, 1]),
          (''segment_ids'', TInt32 [3] [0, 0, 0])]"
    by (simp add: decode_record_def sample_parse_squad_eval keys_def dict_get_def
        tf_cast_int64_to_int32_def)
  have d2: "decode_record sample_parse_single_example sample_serialized
              (squad_v2_name_to_features 3 False)
      = Inr [(''unique_ids'', TInt32 [] [1000000007]),
          (''input_ids'', TInt32 [3] [101, 2054, 102]),
          (''input_mask'', TFloat32 [3] [1, 1, 1]),
          (''segment_ids'', TInt32 [3] [0, 0, 0]),
          (''p_mask'', TFloat32 [3] [1, 0, 1])]"
    by (simp add: decode_record_def sample_parse_squad_v2_eval keys_def dict_get_def
        tf_cast_int64_to_int32_def)
  from squad_eval_labels_empty [of sample_parse_single_example sample_serialized 3,
      OF h1 h2, of "PathStr ''eval.tf_record''" 8 False]
  show ?thesis by (simp add: d1 d2)
qed

section \<open>Claims about the constructed datasets\<close>

text \<open>
  Claim C3. In each of the three constructors the dataset has a shuffle stage exactly
  when \<open>is_training\<close> is true and a repeat stage exactly when \<open>is_training\<close> and the
  flag \<open>custom_training_loop\<close> are both true; with \<open>is_training\<close> false it has
  neither.
\<close>

theorem shuffle_repeat_only_in_training:
  "has_shuffle (create_classifier_dataset f sl bs tr dr ctl) = tr
   \<and> has_repeat (create_classifier_dataset f sl bs tr dr ctl) = (tr \<and> ctl)
   \<and> has_shuffle (create_squad_dataset f sl bs tr ctl) = tr
   \<and> has_repeat (create_squad_dataset f sl bs tr ctl) = (tr \<and> ctl)
   \<and> has_shuffle (create_squad_dataset_v2 f sl bs tr ctl) = tr
   \<and> has_repeat (create_squad_dataset_v2 f sl bs tr ctl) = (tr \<and> ctl)
   \<and> \<not> has_shuffle (create_classifier_dataset f sl bs False dr ctl)
   \<and> \<not> has_repeat (create_classifier_dataset f sl bs False dr ctl)
   \<and> \<not> has_shuffle (create_squad_dataset f sl bs False ctl)
   \<and> \<not> has_repeat (create_squad_dataset f sl bs False ctl)
   \<and> \<not> has_shuffle (create_squad_dataset_v2 f sl bs False ctl)
   \<and> \<not> has_repeat (create_squad_dataset_v2 f sl bs False ctl)"
  by (simp add: create_classifier_dataset_def create_squad_dataset_def
      create_squad_dataset_v2_def file_based_input_fn_builder_def Let_def)

text \<open>
  Claim C5 says that \<open>input_fn\<close> leaves the sharding options at their defaults for every
  input. For a single path it does not: it passes an options object with
  \<open>auto_shard\<close> set to false.
\<close>

theorem input_fn_disables_auto_shard_counterexample:
  "options_issued (file_based_input_fn_builder (PathStr ''train.tf_record'')
       (classifier_name_to_features 128) ()) = [\<lparr>auto_shard = Some False\<rparr>]
   \<and> \<lparr>auto_shard = Some False\<rparr> \<noteq> default_options"
  by (simp add: file_based_input_fn_builder_def default_options_def Let_def)

text \<open>
  Claim C5, amended. \<open>input_fn\<close> issues one options object, the default one with
  \<open>auto_shard\<close> set to false, when \<open>input_file\<close> is a string or a list of length one,
  and issues no options at all otherwise.
\<close>

theorem input_fn_sharding_options:
  "options_issued (file_based_input_fn_builder input_file name_to_features ()) =
     (if isinstance_str input_file \<or> len input_file = 1
      then [default_options\<lparr>auto_shard := Some False\<rparr>] else [])"
  by (simp add: file_based_input_fn_builder_def Let_def)

text \<open>
  Claim C6. For every \<open>seq_length\<close> and in both modes, the three schemas declare exactly
  these fields, each once: the classifier schema \<open>input_ids\<close>, \<open>input_mask\<close>,
  \<open>segment_ids\<close>, \<open>label_ids\<close> and \<open>is_real_example\<close>; the squad schema \<open>unique_ids\<close>,
  \<open>input_ids\<close>, \<open>input_mask\<close> and \<open>segment_ids\<close>, and in training also
  \<open>start_positions\<close> and \<open>end_positions\<close>; the v2 schema those of the squad schema and
  \<open>p_mask\<close>, and in training also the two positions and \<open>is_impossible\<close>. Every declared
  field is a fixed-length feature, of shape \<open>[seq_length]\<close> for \<open>input_ids\<close>,
  \<open>input_mask\<close>, \<open>segment_ids\<close> and \<open>p_mask\<close> and of shape \<open>[]\<close> for every other name.
\<close>

theorem schema_shapes:
  "keys (classifier_name_to_features sl)
     = [''input_ids'', ''input_mask'', ''segment_ids'', ''label_ids'', ''is_real_example'']
   \<and> keys (squad_name_to_features sl tr)
     = [''unique_ids'', ''input_ids'', ''input_mask'', ''segment_ids'']
       @ (if tr then [''start_positions'', ''end_positions''] else [])
   \<and> keys (squad_v2_name_to_features sl tr)
     = [''unique_ids'', ''input_ids'', ''input_mask'', ''segment_ids'', ''p_mask'']
       @ (if tr then [''start_positions'', ''end_positions'', ''is_impossible''] else [])
   \<and> wf_dict (classifier_name_to_features sl)
   \<and> wf_dict (squad_name_to_features sl tr)
   \<and> wf_dict (squad_v2_name_to_features sl tr)
   \<and> (\<forall>(name, feat) \<in> set (classifier_name_to_features sl)
        \<union> set (squad_name_to_features sl tr) \<union> set (squad_v2_name_to_features sl tr).
     name \<in> {''input_ids'', ''input_mask'', ''segment_ids'', ''p_mask'', ''label_ids'',
              ''is_real_example'', ''unique_ids'', ''start_positions'', ''end_positions'',
              ''is_impossible''}
     \<and> (\<exists>dt. feat = FixedLenFeature
           (if name \<in> {''input_ids'', ''input_mask'', ''segment_ids'', ''p_mask''}
            then [sl] else []) dt))"
proof -
  have k: "keys (classifier_name_to_features sl)
     = [''input_ids'', ''input_mask'', ''segment_ids'', ''label_ids'', ''is_real_example'']"
    "keys (squad_name_to_features sl tr)
     = [''unique_ids'', ''input_ids'', ''input_mask'', ''segment_ids'']
       @ (if tr then [''start_positions'', ''end_positions''] else [])"
    "keys (squad_v2_name_to_features sl tr)
     = [''unique_ids'', ''input_ids'', ''input_mask'', ''segment_ids'', ''p_mask'']
       @ (if tr then [''start_positions'', ''end_positions'', ''is_impossible''] else [])"
    by (simp_all add: keys_def classifier_name_to_features_def squad_name_to_features_def
        squad_v2_name_to_features_def Let_def)
  have w: "wf_dict (classifier_name_to_features sl)"
    "wf_dict (squad_name_to_features sl tr)"
    "wf_dict (squad_v2_name_to_features sl tr)"
    using k by (simp_all add: wf_dict_def keys_def)
  have b: "\<forall>(name, feat) \<in> set (classifier_name_to_features sl)
        \<union> set (squad_name_to_features sl tr) \<union> set (squad_v2_name_to_features sl tr).
     name \<in> {''input_ids'', ''input_mask'', ''segment_ids'', ''p_mask'', ''label_ids'',
              ''is_real_example'', ''unique_ids'', ''start_positions'', ''end_positions'',
              ''is_impossible''}
     \<and> (\<exists>dt. feat = FixedLenFeature
           (if name \<in> {''input_ids'', ''input_mask'', ''segment_ids'', ''p_mask''}
            then [sl] else []) dt)"
    by (cases tr)
      (auto simp: classifier_name_to_features_def squad_name_to_features_def
        squad_v2_name_to_features_def Let_def)
  show ?thesis
    apply (insert k w b)
    apply (intro conjI)
          apply assumption+
    done
qed

text \<open>
  At \<open>seq_length = 384\<close> in training mode: the fields of the v2 schema, and one entry of
  each schema with its shape.
\<close>

theorem schema_shapes_witness:
  "keys (squad_v2_name_to_features 384 True)
     = [''unique_ids'', ''input_ids'', ''input_mask'', ''segment_ids'', ''p_mask'',
        ''start_positions'', ''end_positions'', ''is_impossible'']
   \<and> (''label_ids'', FixedLenFeature [] Int64) \<in> set (classifier_name_to_features 384)
   \<and> (''input_ids'', FixedLenFeature [384] Int64) \<in> set (squad_name_to_features 384 True)
   \<and> (''p_mask'', FixedLenFeature [384] Float32) \<in> set (squad_v2_name_to_features 384 True)
   \<and> (\<exists>dt. FixedLenFeature [384] Float32 = FixedLenFeature
           (if ''p_mask'' \<in> {''input_ids'', ''input_mask'', ''segment_ids'', ''p_mask''}
            then [384] else []) dt)
   \<and> (\<exists>dt. FixedLenFeature [] Int64 = FixedLenFeature
           (if ''label_ids'' \<in> {''input_ids'', ''input_mask'', ''segment_ids'', ''p_mask''}
            then [384] else []) dt)"
proof -
  note t = schema_shapes [of 384 True]
  have m1: "(''p_mask'', FixedLenFeature [384] Float32)
      \<in> set (classifier_name_to_features 384) \<union> set (squad_name_to_features 384 True)
        \<union> set (squad_v2_name_to_features 384 True)"
    and m2: "(''label_ids'', FixedLenFeature [] Int64)
      \<in> set (classifier_name_to_features 384) \<union> set (squad_name_to_features 384 True)
        \<union> set (squad_v2_name_to_features 384 True)"
    by (simp_all add: squad_v2_name_to_features_def classifier_name_to_features_def Let_def)
  from t have b: "\<forall>(name, feat) \<in> set (classifier_name_to_features 384)
        \<union> set (squad_name_to_features 384 True) \<union> set (squad_v2_name_to_features 384 True).
     name \<in> {''input_ids'', ''input_mask'', ''segment_ids'', ''p_mask'', ''label_ids'',
              ''is_real_example'', ''unique_ids'', ''start_positions'', ''end_positions'',
              ''is_impossible''}
     \<and> (\<exists>dt. feat = FixedLenFeature
           (if name \<in> {''input_ids'', ''input_mask'', ''segment_ids'', ''p_mask''}
            then [384] else []) dt)"
    by (elim conjE)
  from t have k: "keys (squad_v2_name_to_features 384 True)
     = [''unique_ids'', ''input_ids'', ''input_mask'', ''segment_ids'', ''p_mask'']
       @ (if True then [''start_positions'', ''end_positions'', ''is_impossible''] else [])"
    by (elim conjE)
  have e1: "(''label_ids'', FixedLenFeature [] Int64) \<in> set (classifier_name_to_features 384)"
    and e2: "(''input_ids'', FixedLenFeature [384] Int64) \<in> set (squad_name_to_features 384 True)"
    and e3: "(''p_mask'', FixedLenFeature [384] Float32) \<in> set (squad_v2_name_to_features 384 True)"
    by (simp_all add: squad_v2_name_to_features_def classifier_name_to_features_def
        squad_name_to_features_def Let_def)
  from b [THEN bspec, OF m1] b [THEN bspec, OF m2] k e1 e2 e3 show ?thesis
    by simp
qed

text \<open>
  Claim C7 says that the batch and prefetch policies differ between training and
  evaluation. They do not: with every other argument fixed, the batch and prefetch calls
  of each constructor are the same for \<open>is_training\<close> true and false.
\<close>

theorem batch_prefetch_same_in_both_modes_counterexample:
  "batch_prefetch_policy (create_classifier_dataset (PathStr ''data.tf_record'') 128 32 True True False)
     = batch_prefetch_policy (create_classifier_dataset (PathStr ''data.tf_record'') 128 32 False True False)
   \<and> batch_prefetch_policy (create_squad_dataset (PathStr ''data.tf_record'') 384 8 True False)
     = batch_prefetch_policy (create_squad_dataset (PathStr ''data.tf_record'') 384 8 False False)
   \<and> batch_prefetch_policy (create_squad_dataset_v2 (PathStr ''data.tf_record'') 384 8 True False)
     = batch_prefetch_policy (create_squad_dataset_v2 (PathStr ''data.tf_record'') 384 8 False False)"
  by (simp add: create_classifier_dataset_def create_squad_dataset_def
      create_squad_dataset_v2_def file_based_input_fn_builder_def Let_def)

text \<open>
  Claim C7, amended. In both modes and for either value of the flag, each constructor
  ends with one batch call followed by one prefetch call of buffer size 1024, and makes no
  other batch or prefetch call. \<open>create_classifier_dataset\<close> batches with its
  \<open>drop_remainder\<close> argument, the squad constructors with \<open>drop_remainder\<close> false.
\<close>

theorem batch_prefetch_unconditional:
  "batch_prefetch_policy (create_classifier_dataset f sl bs tr dr ctl)
     = [BatchPolicy bs dr, PrefetchPolicy 1024]
   \<and> batch_prefetch_policy (create_squad_dataset f sl bs tr ctl)
     = [BatchPolicy bs False, PrefetchPolicy 1024]
   \<and> batch_prefetch_policy (create_squad_dataset_v2 f sl bs tr ctl)
     = [BatchPolicy bs False, PrefetchPolicy 1024]
   \<and> (\<exists>d. create_classifier_dataset f sl bs tr dr ctl = Prefetch 1024 (Batch bs dr d))
   \<and> (\<exists>d. create_squad_dataset f sl bs tr ctl = Prefetch 1024 (Batch bs False d))
   \<and> (\<exists>d. create_squad_dataset_v2 f sl bs tr ctl = Prefetch 1024 (Batch bs False d))"
  by (simp add: create_classifier_dataset_def create_squad_dataset_def
      create_squad_dataset_v2_def file_based_input_fn_builder_def Let_def)

end
